theory Spec2Isabelle
  imports Complex_Main
begin

section \<open>The autocomplete widget of react-autocomplete\<close>

text \<open>
  The development embeds three source files: the container component
  (\<^verbatim>\<open>src/Autocomplete.tsx\<close>), the context with its default value
  (\<^verbatim>\<open>ActiveDescendantContext\<close>) and the option component
  (\<^verbatim>\<open>AutocompleteOption\<close>).

  An event handler of the source is a sequence of calls: to React's state setter, to
  the event object, to the methods of the active-descendant tracker and to the
  callbacks the host passed as props. A handler is therefore modelled as the list of
  calls it makes, in order; a separate interpreter gives the widget state that results.
\<close>

subsection \<open>Key names\<close>

text \<open>
  Modelled from the spec: the module \<^verbatim>\<open>./constants\<close> with the object
  \<^verbatim>\<open>KeyCode\<close> is not among the sources. The spec names the keys by the values of
  the DOM's \<^verbatim>\<open>KeyboardEvent.key\<close>: ArrowDown, ArrowUp, Escape, Enter.
\<close>

definition DOWN :: string where "DOWN = ''ArrowDown''"
definition UP :: string where "UP = ''ArrowUp''"
definition ESC :: string where "ESC = ''Escape''"
definition ENTER :: string where "ENTER = ''Enter''"

subsection \<open>Events and calls\<close>

text \<open>The two fields of \<^verbatim>\<open>React.KeyboardEvent\<close> that the handlers read.\<close>

record keyboard_event =
  key :: string
  altKey :: bool

text \<open>
  The methods of the object that \<^verbatim>\<open>useTrackActiveDescendant\<close> returns, as the
  container calls them. \<^verbatim>\<open>update\<close> takes \<^verbatim>\<open>string | undefined\<close>.
\<close>

datatype tracker_call = Next | Prev | Clear | Click | Update "string option"

text \<open>The host's callbacks, with the argument each one receives.\<close>

datatype 'v host_call =
    OnKeyDown keyboard_event
  | OnFocus
  | OnBlur
  | OnOptionSelect 'v

datatype 'v effect =
    PreventDefault
  | SetExpanded bool
  | TrackerCall tracker_call
  | HostCall "'v host_call"

subsection \<open>Props of the container\<close>

text \<open>A callback prop is opaque: all the container does with it is call it.\<close>

datatype host_fn = HostFn

datatype attr = Str string | Flag bool

record css_classes =
  container :: "string option"
  input :: "string option"
  listbox :: "string option"
  label_class :: "string option"
  portal :: "string option"

record props =
  id_p :: "string option"
  classes :: "css_classes option"
  label_p :: "string option"
  autoExpand :: "bool option"
  value_p :: "string option"
  onBlur :: "host_fn option"
  onFocus :: "host_fn option"
  onKeyDown :: "host_fn option"
  onOptionSelect_p :: "host_fn option"
  remainingProps :: "string \<rightharpoonup> attr"

text \<open>The default of the destructuring pattern: \<^verbatim>\<open>autoExpand = true\<close>.\<close>

definition autoExpand_of :: "props \<Rightarrow> bool" where
  "autoExpand_of p = (case autoExpand p of None \<Rightarrow> True | Some b \<Rightarrow> b)"

text \<open>The optional call \<^verbatim>\<open>f?.(x)\<close>: nothing happens when the prop is absent.\<close>

definition opt_call :: "host_fn option \<Rightarrow> 'v host_call \<Rightarrow> 'v effect list" where
  "opt_call f c = (case f of None \<Rightarrow> [] | Some _ \<Rightarrow> [HostCall c])"

subsection \<open>The handlers of the container\<close>

text \<open>
  Each handler closes over \<^verbatim>\<open>expanded\<close> as the last render saw it; that value is
  the first argument where the handler reads it.
\<close>

definition trackActiveDescendant :: "bool \<Rightarrow> keyboard_event \<Rightarrow> 'v effect list" where
  "trackActiveDescendant expanded e =
     (if expanded then
        (if key e = DOWN then [PreventDefault, TrackerCall Next]
         else if key e = UP then [PreventDefault, TrackerCall Prev]
         else if key e = ESC then [SetExpanded False, TrackerCall Clear]
         else if key e = ENTER then [TrackerCall Click]
         else [])
      else
        (if key e = ENTER \<and> altKey e then [SetExpanded True] else []))"

definition onKeyDownHandler :: "props \<Rightarrow> bool \<Rightarrow> keyboard_event \<Rightarrow> 'v effect list" where
  "onKeyDownHandler p expanded e =
     trackActiveDescendant expanded e @ opt_call (onKeyDown p) (OnKeyDown e)"

definition onFocusHandler :: "props \<Rightarrow> 'v effect list" where
  "onFocusHandler p = SetExpanded (autoExpand_of p) # opt_call (onFocus p) OnFocus"

definition onBlurHandler :: "props \<Rightarrow> 'v effect list" where
  "onBlurHandler p = SetExpanded False # opt_call (onBlur p) OnBlur"

text \<open>
  The function stored under \<^verbatim>\<open>onOptionSelect\<close> in \<^verbatim>\<open>activeDescendantState\<close>:
  the selection entry point that the options reach through the context.
\<close>

definition onOptionSelect_entry :: "props \<Rightarrow> string option \<Rightarrow> 'v \<Rightarrow> 'v effect list" where
  "onOptionSelect_entry p i newValue =
     TrackerCall (Update i) # opt_call (onOptionSelect_p p) (OnOptionSelect newValue)"

subsection \<open>The tracker and the state of the widget\<close>

text \<open>
  The hook \<^verbatim>\<open>useTrackActiveDescendant\<close> is not among the sources, so the tracker is a
  parameter: its state is of an arbitrary type \<open>'t\<close>, standing for whatever its methods
  read and write, and the record holds what the container uses of it. Nothing is
  assumed about these functions. The selection that \<^verbatim>\<open>click\<close> may trigger inside the
  tracker is the tracker's business and is not unfolded here.
\<close>

record 't tracker =
  t_current :: "'t \<Rightarrow> string option"
  t_check :: "'t \<Rightarrow> string \<Rightarrow> bool"
  t_next :: "'t \<Rightarrow> 't"
  t_prev :: "'t \<Rightarrow> 't"
  t_clear :: "'t \<Rightarrow> 't"
  t_click :: "'t \<Rightarrow> 't"
  t_update :: "string option \<Rightarrow> 't \<Rightarrow> 't"

record 't widget =
  expanded :: bool
  activeDescendant :: 't

text \<open>\<^verbatim>\<open>useState(false)\<close>: the widget is collapsed when it mounts.\<close>

definition initial_widget :: "'t \<Rightarrow> 't widget" where
  "initial_widget t0 = \<lparr>expanded = False, activeDescendant = t0\<rparr>"

fun tracker_step :: "'t tracker \<Rightarrow> tracker_call \<Rightarrow> 't \<Rightarrow> 't" where
  "tracker_step T Next s = t_next T s"
| "tracker_step T Prev s = t_prev T s"
| "tracker_step T Clear s = t_clear T s"
| "tracker_step T Click s = t_click T s"
| "tracker_step T (Update i) s = t_update T i s"

text \<open>
  What one call does to the widget. \<^verbatim>\<open>preventDefault\<close> acts on the browser and a host
  callback on the host: neither has a handle on the state of the widget.
\<close>

fun exec_effect :: "'t tracker \<Rightarrow> 'v effect \<Rightarrow> 't widget \<Rightarrow> 't widget" where
  "exec_effect T PreventDefault w = w"
| "exec_effect T (SetExpanded b) w = w\<lparr>expanded := b\<rparr>"
| "exec_effect T (TrackerCall c) w = w\<lparr>activeDescendant := tracker_step T c (activeDescendant w)\<rparr>"
| "exec_effect T (HostCall c) w = w"

definition exec :: "'t tracker \<Rightarrow> 'v effect list \<Rightarrow> 't widget \<Rightarrow> 't widget" where
  "exec T effs w = fold (exec_effect T) effs w"

text \<open>
  What reaches the container, and the handler each one runs: the three events of the
  input, and \<open>Select i v\<close>, the call of the selection entry point by an option.
\<close>

datatype 'v event =
    Focus
  | Blur
  | KeyDown keyboard_event
  | Select "string option" 'v

fun handle :: "props \<Rightarrow> bool \<Rightarrow> 'v event \<Rightarrow> 'v effect list" where
  "handle p ex Focus = onFocusHandler p"
| "handle p ex Blur = onBlurHandler p"
| "handle p ex (KeyDown e) = onKeyDownHandler p ex e"
| "handle p ex (Select i v) = onOptionSelect_entry p i v"

definition step :: "'t tracker \<Rightarrow> props \<Rightarrow> 't widget \<Rightarrow> 'v event \<Rightarrow> 't widget" where
  "step T p w ev = exec T (handle p (expanded w) ev) w"

subsection \<open>The context and its default value\<close>

datatype error = Error string

text \<open>
  The capability object that the container hands down to its options. Calling a
  function of it either throws or returns; \<^verbatim>\<open>onOptionSelect\<close> returns the calls it
  made.
\<close>

record 'v active_descendant_context =
  checkIfActive :: "string \<Rightarrow> error + bool"
  onOptionSelect :: "string \<Rightarrow> 'v \<Rightarrow> error + 'v effect list"

definition no_provider :: string where
  "no_provider = ''ActiveDescendantContext was initialized without a Provider! You likely rendered an AutocompleteOption without a parent Autocomplete.''"

text \<open>
  The default value given to \<^verbatim>\<open>createContext\<close>. Its argument is the value of
  \<^verbatim>\<open>process.env.NODE_ENV\<close>, which may be unset.
\<close>

definition ActiveDescendantContext :: "string option \<Rightarrow> 'v active_descendant_context" where
  "ActiveDescendantContext NODE_ENV =
     \<lparr>checkIfActive = (\<lambda>i.
        if NODE_ENV \<noteq> Some ''production'' then Inl (Error no_provider) else Inr False),
      onOptionSelect = (\<lambda>i v.
        if NODE_ENV \<noteq> Some ''production'' then Inl (Error no_provider) else Inr [])\<rparr>"

text \<open>
  \<^verbatim>\<open>useContext\<close>: the value of the nearest provider, the default value when there is
  none.
\<close>

definition useActiveDescendantContext ::
  "string option \<Rightarrow> 'v active_descendant_context option \<Rightarrow> 'v active_descendant_context" where
  "useActiveDescendantContext NODE_ENV provider =
     (case provider of None \<Rightarrow> ActiveDescendantContext NODE_ENV | Some c \<Rightarrow> c)"

text \<open>
  The value the container provides. \<^verbatim>\<open>useMemo\<close> recomputes it whenever
  \<^verbatim>\<open>activeDescendant.check\<close> or the host's callback changes, so it is modelled as
  computed at every render, from the tracker state \<open>s\<close> of that render. The closure
  it stores calls the \<^verbatim>\<open>update\<close> of the render that computed it; the methods of the
  tracker are the fixed functions of \<open>T\<close> here, so the model does not tell one
  render's \<^verbatim>\<open>update\<close> from another's. The context types the id as a string, the
  closure as \<^verbatim>\<open>string | undefined\<close>.
\<close>

definition activeDescendantState ::
  "'t tracker \<Rightarrow> props \<Rightarrow> 't \<Rightarrow> 'v active_descendant_context" where
  "activeDescendantState T p s =
     \<lparr>checkIfActive = (\<lambda>i. Inr (t_check T s i)),
      onOptionSelect = (\<lambda>i newValue. Inr (onOptionSelect_entry p (Some i) newValue))\<rparr>"

subsection \<open>The option component\<close>

text \<open>
  The values of JavaScript's number type, as far as the truth test tells them apart:
  \<open>Finite r\<close> is the finite number of value \<open>r\<close>, so that \<open>Finite 0\<close> is \<^verbatim>\<open>+0\<close>;
  \<^verbatim>\<open>-0\<close>, the two infinities (\<open>Infinite True\<close> the positive one) and \<^verbatim>\<open>NaN\<close> stand
  apart.
\<close>

datatype js_number = NaN | MinusZero | Infinite bool | Finite real

text \<open>The numbers that are falsy: \<^verbatim>\<open>+0\<close>, \<^verbatim>\<open>-0\<close> and \<^verbatim>\<open>NaN\<close>.\<close>

fun falsy_number :: "js_number \<Rightarrow> bool" where
  "falsy_number NaN = True"
| "falsy_number MinusZero = True"
| "falsy_number (Infinite _) = False"
| "falsy_number (Finite r) = (r = 0)"

text \<open>
  What a host can pass as \<^verbatim>\<open>children\<close>, the members of \<^verbatim>\<open>React.ReactNode\<close>:
  \<^verbatim>\<open>undefined\<close>, \<^verbatim>\<open>null\<close>, a boolean, a number, a string, an element or portal (an
  object, left opaque) and an iterable of nodes (an object as well).
\<close>

datatype react_node =
    Undefined
  | Null
  | BoolNode bool
  | NumberNode js_number
  | TextNode string
  | ElementNode string
  | ArrayNode "react_node list"

text \<open>The truth test that \<^verbatim>\<open>||\<close> applies to its left operand; every object is truthy.\<close>

fun truthy :: "react_node \<Rightarrow> bool" where
  "truthy Undefined = False"
| "truthy Null = False"
| "truthy (BoolNode b) = b"
| "truthy (NumberNode n) = (\<not> falsy_number n)"
| "truthy (TextNode s) = (s \<noteq> [])"
| "truthy (ElementNode _) = True"
| "truthy (ArrayNode _) = True"

text \<open>\<^verbatim>\<open>id || autoId\<close>: an absent id and the empty string are both falsy.\<close>

definition or_autoId :: "string option \<Rightarrow> string \<Rightarrow> string" where
  "or_autoId i autoId =
     (case i of None \<Rightarrow> autoId | Some s \<Rightarrow> if s = [] then autoId else s)"

record 'v option_props =
  id_o :: "string option"
  value_o :: 'v
  children_o :: react_node
  className_o :: "string option"

text \<open>
  The rendered \<^verbatim>\<open>li\<close>. A handler field holds what calling the handler does; both
  handlers are the one closure \<^verbatim>\<open>onClick\<close> of the source.
\<close>

record 'v li =
  aria_selected :: bool
  li_className :: "string option"
  li_id :: string
  li_role :: string
  li_onClick :: "error + 'v effect list"
  li_onMouseDown :: "error + 'v effect list"
  li_children :: react_node

text \<open>
  The component takes the value's own \<^verbatim>\<open>toString\<close> and the id that \<^verbatim>\<open>useId\<close>
  generated as arguments. The call of \<^verbatim>\<open>checkIfActive\<close> happens during the render,
  so an error it throws is the result of the render. \<^verbatim>\<open>toString\<close> is called only
  when the children are falsy.
\<close>

definition AutocompleteOption ::
  "('v \<Rightarrow> string) \<Rightarrow> 'v active_descendant_context \<Rightarrow> string \<Rightarrow> 'v option_props
     \<Rightarrow> error + 'v li" where
  "AutocompleteOption toString ctx autoId op =
     (let htmlId = or_autoId (id_o op) autoId in
      case checkIfActive ctx htmlId of
        Inl e \<Rightarrow> Inl e
      | Inr selected \<Rightarrow>
          (let onClick = onOptionSelect ctx htmlId (value_o op) in
           Inr \<lparr>aria_selected = selected,
                li_className = className_o op,
                li_id = htmlId,
                li_role = ''option'',
                li_onClick = onClick,
                li_onMouseDown = onClick,
                li_children =
                  (if truthy (children_o op) then children_o op
                   else TextNode (toString (value_o op)))\<rparr>))"

datatype mouse_event = MouseDown | MouseClick

fun li_dispatch :: "'v li \<Rightarrow> mouse_event \<Rightarrow> error + 'v effect list" where
  "li_dispatch l MouseDown = li_onMouseDown l"
| "li_dispatch l MouseClick = li_onClick l"

subsection \<open>The markup of the container\<close>

text \<open>
  The props of a JSX element: the spread object first, then the attributes written
  after it, each overriding an earlier entry of the same name. An attribute whose
  value is \<^verbatim>\<open>undefined\<close> is absent from the element.
\<close>

definition jsx :: "(string \<rightharpoonup> attr) \<Rightarrow> (string \<times> attr option) list \<Rightarrow> (string \<rightharpoonup> attr)" where
  "jsx spread written = fold (\<lambda>(k, v) m. m(k := v)) written spread"

definition class_of :: "css_classes option \<Rightarrow> (css_classes \<Rightarrow> string option) \<Rightarrow> attr option" where
  "class_of c slot = map_option Str (Option.bind c slot)"

record rendered =
  input_el :: "string \<rightharpoonup> attr"
  label_el :: "((string \<rightharpoonup> attr) \<times> string) option"
  listbox_el :: "(string \<rightharpoonup> attr) option"

text \<open>
  The elements the component returns, without the two wrapping \<^verbatim>\<open>div\<close>s, the ref
  and the three handlers of the input, which are the handlers above. \<open>autoId\<close> is
  the id from \<^verbatim>\<open>useId\<close>.
\<close>

definition Autocomplete :: "'t tracker \<Rightarrow> props \<Rightarrow> string \<Rightarrow> 't widget \<Rightarrow> rendered" where
  "Autocomplete T p autoId w =
     (let comboboxId = or_autoId (id_p p) autoId;
          listboxId = comboboxId @ ''-listbox''
      in \<lparr>input_el = jsx (remainingProps p)
             [(''className'', class_of (classes p) input),
              (''aria-activedescendant'', map_option Str (t_current T (activeDescendant w))),
              (''aria-autocomplete'', Some (Str ''list'')),
              (''aria-controls'', Some (Str listboxId)),
              (''aria-expanded'', Some (Flag (expanded w))),
              (''autoComplete'', Some (Str ''off'')),
              (''id'', Some (Str comboboxId)),
              (''role'', Some (Str ''combobox'')),
              (''value'', map_option Str (value_p p))],
           label_el =
             (case label_p p of
                None \<Rightarrow> None
              | Some l \<Rightarrow>
                  if l = [] then None
                  else Some (jsx Map.empty
                         [(''htmlFor'', Some (Str comboboxId)),
                          (''className'', class_of (classes p) label_class)], l)),
           listbox_el =
             (if expanded w then
                Some (jsx Map.empty
                  [(''aria-labelledby'', Some (Str comboboxId)),
                   (''className'', class_of (classes p) listbox),
                   (''id'', Some (Str listboxId)),
                   (''role'', Some (Str ''listbox''))])
              else None)\<rparr>)"

subsection \<open>A container without any prop\<close>

definition plain_props :: props where
  "plain_props =
     \<lparr>id_p = None, classes = None, label_p = None, autoExpand = None, value_p = None,
      onBlur = None, onFocus = None, onKeyDown = None, onOptionSelect_p = None,
      remainingProps = Map.empty\<rparr>"

section \<open>Properties\<close>

subsection \<open>Auxiliary facts\<close>

text \<open>The four key names are pairwise different, so the branches of the cascade in
  \<^verbatim>\<open>trackActiveDescendant\<close> do not shadow each other.\<close>

lemma keys_distinct:
  "DOWN \<noteq> UP" "DOWN \<noteq> ESC" "DOWN \<noteq> ENTER" "UP \<noteq> ESC" "UP \<noteq> ENTER" "ESC \<noteq> ENTER"
  "UP \<noteq> DOWN" "ESC \<noteq> DOWN" "ENTER \<noteq> DOWN" "ESC \<noteq> UP" "ENTER \<noteq> UP" "ENTER \<noteq> ESC"
  by (simp_all add: DOWN_def UP_def ESC_def ENTER_def)

lemma exec_Nil: "exec T [] w = w"
  by (simp add: exec_def)

lemma exec_Cons: "exec T (x # xs) w = exec T xs (exec_effect T x w)"
  by (simp add: exec_def)

lemma exec_append: "exec T (xs @ ys) w = exec T ys (exec T xs w)"
  by (simp add: exec_def)

text \<open>A call of a host callback leaves the widget as it is, and is none of the calls
  the widget makes on the event or on the tracker.\<close>

lemma exec_opt_call: "exec T (opt_call f c) w = w"
  by (cases f) (simp_all add: opt_call_def exec_def)

lemma opt_call_no_widget_effect:
  "PreventDefault \<notin> set (opt_call f c)" "SetExpanded b \<notin> set (opt_call f c)"
  "TrackerCall k \<notin> set (opt_call f c)"
  by (cases f; simp add: opt_call_def)+

text \<open>The \<^verbatim>\<open>li\<close> of an option rendered below a container: the context never throws
  there.\<close>

lemma option_in_provider:
  "AutocompleteOption ts (activeDescendantState T p s) autoId op =
     Inr \<lparr>aria_selected = t_check T s (or_autoId (id_o op) autoId),
          li_className = className_o op,
          li_id = or_autoId (id_o op) autoId,
          li_role = ''option'',
          li_onClick = Inr (onOptionSelect_entry p (Some (or_autoId (id_o op) autoId)) (value_o op)),
          li_onMouseDown = Inr (onOptionSelect_entry p (Some (or_autoId (id_o op) autoId)) (value_o op)),
          li_children =
            (if truthy (children_o op) then children_o op else TextNode (ts (value_o op)))\<rparr>"
  by (simp add: AutocompleteOption_def activeDescendantState_def Let_def)



subsection \<open>The claims\<close>

text \<open>
  C1: whenever the listbox collapses (blur, Escape while expanded, selection of an
  option) the active id of the tracker is set to null; in particular, after the blur
  handler has run, \<^verbatim>\<open>clear()\<close> has been called and no id is active.

  The blur handler does not do that. With a host callback it makes exactly the calls
  \<^verbatim>\<open>setExpanded(false)\<close> and \<^verbatim>\<open>onBlur(e)\<close>; whatever the props, no method of the
  tracker is among its calls, \<^verbatim>\<open>clear()\<close> included. The widget after a blur is the
  widget before it, collapsed: the tracker is as it was, the listbox is gone, and the
  input still carries as \<^verbatim>\<open>aria-activedescendant\<close> the id that was active before.
\<close>

theorem blur_handler_omits_clear:
  "onBlurHandler (plain_props\<lparr>onBlur := Some HostFn\<rparr>)
     = [SetExpanded False, HostCall (OnBlur :: nat host_call)]
   \<and> TrackerCall c \<notin> set (onBlurHandler p :: 'v effect list)
   \<and> step T p w (Blur :: 'v event) = w\<lparr>expanded := False\<rparr>
   \<and> input_el (Autocomplete T p autoId (step T p w (Blur :: 'v event))) ''aria-activedescendant''
       = map_option Str (t_current T (activeDescendant w))
   \<and> listbox_el (Autocomplete T p autoId (step T p w (Blur :: 'v event))) = None"
proof -
  have calls: "onBlurHandler (plain_props\<lparr>onBlur := Some HostFn\<rparr>)
      = [SetExpanded False, HostCall (OnBlur :: nat host_call)]"
    by (simp add: onBlurHandler_def opt_call_def plain_props_def)
  have none: "TrackerCall c \<notin> set (onBlurHandler p :: 'v effect list)"
    by (simp add: onBlurHandler_def opt_call_no_widget_effect)
  have after: "step T p w (Blur :: 'v event) = w\<lparr>expanded := False\<rparr>"
    by (simp add: step_def onBlurHandler_def exec_Cons exec_opt_call)
  have markup: "input_el (Autocomplete T p autoId (w\<lparr>expanded := False\<rparr>)) ''aria-activedescendant''
        = map_option Str (t_current T (activeDescendant w))
      \<and> listbox_el (Autocomplete T p autoId (w\<lparr>expanded := False\<rparr>)) = None"
    by (simp add: Autocomplete_def jsx_def Let_def)
  from calls none after markup show ?thesis
    by simp
qed

text \<open>
  The other path that collapses the listbox, Escape while the widget is expanded,
  does call \<^verbatim>\<open>clear()\<close>, and that is all it does to the widget beside collapsing it.
\<close>

lemma escape_collapses_and_clears:
  "trackActiveDescendant True (e\<lparr>key := ESC\<rparr>) = [SetExpanded False, TrackerCall Clear]
   \<and> step T p (w\<lparr>expanded := True\<rparr>) (KeyDown (e\<lparr>key := ESC\<rparr>) :: 'v event)
       = w\<lparr>expanded := False, activeDescendant := t_clear T (activeDescendant w)\<rparr>"
  by (simp add: trackActiveDescendant_def step_def onKeyDownHandler_def
      exec_append exec_Cons exec_Nil exec_opt_call keys_distinct)

text \<open>
  C2: an option rendered outside any container gets the default value of the
  context. Unless \<^verbatim>\<open>NODE_ENV\<close> is \<^verbatim>\<open>production\<close>, \<^verbatim>\<open>checkIfActive\<close> and
  \<^verbatim>\<open>onOptionSelect\<close> throw for every argument, and so does the render of the option; in
  production \<^verbatim>\<open>checkIfActive\<close> returns false for every id, \<^verbatim>\<open>onOptionSelect\<close> makes no
  call at all, and the option renders unselected with handlers that do nothing.
\<close>

theorem default_context_policy:
  "(env \<noteq> Some ''production'' \<longrightarrow>
      checkIfActive (useActiveDescendantContext env None :: 'v active_descendant_context) i
        = Inl (Error no_provider)
    \<and> onOptionSelect (useActiveDescendantContext env None) i (v :: 'v) = Inl (Error no_provider)
    \<and> AutocompleteOption ts (useActiveDescendantContext env None) autoId (op :: 'v option_props)
        = Inl (Error no_provider))
   \<and> (env = Some ''production'' \<longrightarrow>
      checkIfActive (useActiveDescendantContext env None :: 'v active_descendant_context) i
        = Inr False
    \<and> onOptionSelect (useActiveDescendantContext env None) i (v :: 'v) = Inr []
    \<and> (\<exists>l. AutocompleteOption ts (useActiveDescendantContext env None) autoId (op :: 'v option_props)
          = Inr l
        \<and> aria_selected l = False \<and> li_onMouseDown l = Inr [] \<and> li_onClick l = Inr []))"
  by (simp add: useActiveDescendantContext_def ActiveDescendantContext_def
      AutocompleteOption_def Let_def)

theorem default_context_policy_witness:
  "checkIfActive (useActiveDescendantContext (Some ''development'') None
      :: nat active_descendant_context) ''a'' = Inl (Error no_provider)
   \<and> onOptionSelect (useActiveDescendantContext (Some ''development'') None) ''a'' (1::nat)
      = Inl (Error no_provider)
   \<and> onOptionSelect (useActiveDescendantContext None None) ''a'' (1::nat)
      = Inl (Error no_provider)
   \<and> checkIfActive (useActiveDescendantContext (Some ''production'') None
      :: nat active_descendant_context) ''a'' = Inr False
   \<and> onOptionSelect (useActiveDescendantContext (Some ''production'') None) ''a'' (1::nat)
      = Inr []"
  using default_context_policy [of "Some ''development''" "''a''" "1::nat"]
    default_context_policy [of None "''a''" "1::nat"]
    default_context_policy [of "Some ''production''" "''a''" "1::nat"]
  by simp

text \<open>
  C3: in every state of the widget, whatever the host spreads onto the input, the
  input has \<^verbatim>\<open>role=combobox\<close>, \<^verbatim>\<open>aria-autocomplete=list\<close>, \<^verbatim>\<open>aria-expanded\<close> equal to the
  expand state, \<^verbatim>\<open>aria-controls\<close> equal to the id of the listbox, and
  \<^verbatim>\<open>aria-activedescendant\<close> equal to the tracker's current id, absent when there is
  none. The listbox is rendered exactly when the widget is expanded, with
  \<^verbatim>\<open>role=listbox\<close> and the id that \<^verbatim>\<open>aria-controls\<close> names. An option below the container
  has \<^verbatim>\<open>role=option\<close> and \<^verbatim>\<open>aria-selected\<close> equal to the tracker's \<^verbatim>\<open>check\<close> of its id.
\<close>

theorem aria_contract:
  "input_el (Autocomplete T p autoId w) ''role'' = Some (Str ''combobox'')
   \<and> input_el (Autocomplete T p autoId w) ''aria-autocomplete'' = Some (Str ''list'')
   \<and> input_el (Autocomplete T p autoId w) ''aria-expanded'' = Some (Flag (expanded w))
   \<and> input_el (Autocomplete T p autoId w) ''aria-controls''
       = Some (Str (or_autoId (id_p p) autoId @ ''-listbox''))
   \<and> input_el (Autocomplete T p autoId w) ''aria-activedescendant''
       = map_option Str (t_current T (activeDescendant w))
   \<and> (case listbox_el (Autocomplete T p autoId w) of
         None \<Rightarrow> \<not> expanded w
       | Some ul \<Rightarrow> expanded w \<and> ul ''role'' = Some (Str ''listbox'')
           \<and> ul ''id'' = Some (Str (or_autoId (id_p p) autoId @ ''-listbox'')))
   \<and> (\<exists>l. AutocompleteOption ts (activeDescendantState T p (activeDescendant w)) oid
              (op :: 'v option_props) = Inr l
         \<and> li_role l = ''option''
         \<and> aria_selected l = t_check T (activeDescendant w) (li_id l))"
  by (simp add: Autocomplete_def jsx_def Let_def option_in_provider)

text \<open>
  C4: while the widget is expanded, an ArrowDown keydown calls \<^verbatim>\<open>preventDefault\<close> and
  then the tracker's \<^verbatim>\<open>next()\<close>, an ArrowUp keydown \<^verbatim>\<open>preventDefault\<close> and then
  \<^verbatim>\<open>prev()\<close>, before the host's own handler runs; the widget stays expanded and only
  the tracker has moved. While it is collapsed no keydown makes the widget call
  \<^verbatim>\<open>preventDefault\<close> or any method of the tracker, and an arrow key changes nothing.
\<close>

theorem arrow_keys_navigate_while_expanded:
  "onKeyDownHandler p True (e\<lparr>key := DOWN\<rparr>)
     = [PreventDefault, TrackerCall Next] @ opt_call (onKeyDown p) (OnKeyDown (e\<lparr>key := DOWN\<rparr>) :: 'v host_call)
   \<and> onKeyDownHandler p True (e\<lparr>key := UP\<rparr>)
     = [PreventDefault, TrackerCall Prev] @ opt_call (onKeyDown p) (OnKeyDown (e\<lparr>key := UP\<rparr>) :: 'v host_call)
   \<and> step T p (w\<lparr>expanded := True\<rparr>) (KeyDown (e\<lparr>key := DOWN\<rparr>) :: 'v event)
     = w\<lparr>expanded := True, activeDescendant := t_next T (activeDescendant w)\<rparr>
   \<and> step T p (w\<lparr>expanded := True\<rparr>) (KeyDown (e\<lparr>key := UP\<rparr>) :: 'v event)
     = w\<lparr>expanded := True, activeDescendant := t_prev T (activeDescendant w)\<rparr>
   \<and> PreventDefault \<notin> set (onKeyDownHandler p False e' :: 'v effect list)
   \<and> TrackerCall c \<notin> set (onKeyDownHandler p False e' :: 'v effect list)
   \<and> step T p (w\<lparr>expanded := False\<rparr>) (KeyDown (e\<lparr>key := DOWN\<rparr>) :: 'v event) = w\<lparr>expanded := False\<rparr>
   \<and> step T p (w\<lparr>expanded := False\<rparr>) (KeyDown (e\<lparr>key := UP\<rparr>) :: 'v event) = w\<lparr>expanded := False\<rparr>"
  by (simp add: trackActiveDescendant_def step_def onKeyDownHandler_def
      exec_append exec_Cons exec_Nil exec_opt_call keys_distinct opt_call_no_widget_effect)

text \<open>
  C5: the widget mounts collapsed. Focus sets the expand state to the auto-expand
  flag (true when the prop is absent), blur sets it to collapsed, Escape while
  expanded sets it to collapsed, and Enter with Alt held while collapsed sets it to
  expanded.
\<close>

theorem expand_state_machine:
  "expanded (initial_widget t0) = False
   \<and> expanded (step T p w (Focus :: 'v event)) = autoExpand_of p
   \<and> autoExpand_of (p\<lparr>autoExpand := Some b\<rparr>) = b
   \<and> autoExpand_of (p\<lparr>autoExpand := None\<rparr>) = True
   \<and> expanded (step T p w (Blur :: 'v event)) = False
   \<and> expanded (step T p (w\<lparr>expanded := True\<rparr>) (KeyDown (e\<lparr>key := ESC\<rparr>) :: 'v event)) = False
   \<and> expanded (step T p (w\<lparr>expanded := False\<rparr>)
        (KeyDown (e\<lparr>key := ENTER, altKey := True\<rparr>) :: 'v event)) = True"
  by (simp add: initial_widget_def trackActiveDescendant_def step_def onKeyDownHandler_def
      onFocusHandler_def onBlurHandler_def autoExpand_of_def
      exec_append exec_Cons exec_Nil exec_opt_call keys_distinct)

text \<open>
  C6: a mouse-down on an option below a container calls the selection entry point of
  the container with the id the option is rendered with and with its value. When the
  blur of the input follows the mouse-down, the calls of the selection come before
  \<^verbatim>\<open>setExpanded(false)\<close>: the selection leaves the expand state alone and the blur
  then collapses the widget.
\<close>

theorem mouse_down_selects_before_blur:
  "(\<exists>l. AutocompleteOption ts (activeDescendantState T p s) autoId (op :: 'v option_props) = Inr l
       \<and> li_id l = or_autoId (id_o op) autoId
       \<and> li_dispatch l MouseDown = Inr (onOptionSelect_entry p (Some (li_id l)) (value_o op)))
   \<and> handle p ex (Select (Some i) (v :: 'v)) @ handle p ex Blur
       = TrackerCall (Update (Some i)) # opt_call (onOptionSelect_p p) (OnOptionSelect v)
         @ SetExpanded False # opt_call (onBlur p) OnBlur
   \<and> expanded (step T p w (Select (Some i) v)) = expanded w
   \<and> expanded (step T p (step T p w (Select (Some i) v)) (Blur :: 'v event)) = False"
  by (simp add: option_in_provider step_def onBlurHandler_def
      onOptionSelect_entry_def exec_append exec_Cons exec_Nil exec_opt_call)

text \<open>
  C7: an Enter keydown while the widget is expanded makes one call, the tracker's
  \<^verbatim>\<open>click()\<close>; the widget stays expanded and nothing of its state changes but what
  \<^verbatim>\<open>click()\<close> does to the tracker.
\<close>

theorem enter_delegates_to_click:
  "trackActiveDescendant True (e\<lparr>key := ENTER\<rparr>) = [TrackerCall Click :: 'v effect]
   \<and> step T p (w\<lparr>expanded := True\<rparr>) (KeyDown (e\<lparr>key := ENTER\<rparr>) :: 'v event)
       = w\<lparr>expanded := True, activeDescendant := t_click T (activeDescendant w)\<rparr>"
  by (simp add: trackActiveDescendant_def step_def onKeyDownHandler_def
      exec_append exec_Cons exec_Nil exec_opt_call keys_distinct)

text \<open>
  C8: a selection reported with id \<open>i\<close> and value \<open>v\<close> calls \<^verbatim>\<open>update(i)\<close> on the tracker
  and then the host's \<^verbatim>\<open>onOptionSelect\<close> with \<open>v\<close> itself; a host that passed no callback
  is not called. The context hands the options this very function, and the only
  change to the widget is the tracker's \<^verbatim>\<open>update(i)\<close>.
\<close>

theorem selection_updates_tracker_and_notifies_host:
  "onOptionSelect_entry (p\<lparr>onOptionSelect_p := Some f\<rparr>) i (v :: 'v)
     = [TrackerCall (Update i), HostCall (OnOptionSelect v)]
   \<and> onOptionSelect_entry (p\<lparr>onOptionSelect_p := None\<rparr>) i v = [TrackerCall (Update i)]
   \<and> onOptionSelect (activeDescendantState T p s) j v = Inr (onOptionSelect_entry p (Some j) v)
   \<and> step T p w (Select i v) = w\<lparr>activeDescendant := t_update T i (activeDescendant w)\<rparr>"
  by (simp add: activeDescendantState_def step_def onOptionSelect_entry_def opt_call_def
      exec_Cons exec_Nil split: option.split)



text \<open>
  C10: the click handler and the mouse-down handler of an option are the same
  function. A mouse-down and a click delivered to the same rendered option call the
  selection entry point twice with the same id and value, and a host that passed
  \<^verbatim>\<open>onOptionSelect\<close> is called twice with that value.
\<close>

theorem mouse_down_and_click_select_twice:
  "\<exists>l. AutocompleteOption ts (activeDescendantState T p s) autoId (op :: 'v option_props) = Inr l
     \<and> li_onClick l = li_onMouseDown l
     \<and> map (li_dispatch l) [MouseDown, MouseClick]
         = [Inr (onOptionSelect_entry p (Some (li_id l)) (value_o op)),
            Inr (onOptionSelect_entry p (Some (li_id l)) (value_o op))]
     \<and> onOptionSelect_entry (p\<lparr>onOptionSelect_p := Some f\<rparr>) (Some (li_id l)) (value_o op)
         @ onOptionSelect_entry (p\<lparr>onOptionSelect_p := Some f\<rparr>) (Some (li_id l)) (value_o op)
         = [TrackerCall (Update (Some (li_id l))), HostCall (OnOptionSelect (value_o op)),
            TrackerCall (Update (Some (li_id l))), HostCall (OnOptionSelect (value_o op))]"
  by (simp add: option_in_provider onOptionSelect_entry_def opt_call_def)

end
